theory Spec2Isabelle
  imports Complex_Main
begin

section \<open>The pygame Button class (button\_class.py)\<close>

text \<open>
  A shallow embedding of the class \<open>Button\<close> of \<open>button_class.py\<close>. A Button object is a
  record of its attributes, a method that assigns to \<open>self\<close> returns the updated record, and
  every exception the Python can raise is a value \<open>Inl e\<close> of a sum type. Python's unbounded
  integers are \<open>int\<close>, tuples and lists of numbers are \<open>int list\<close>, strings are \<open>string\<close>.
\<close>

subsection \<open>Errors and sequences\<close>

datatype error = IndexError | TypeError | ValueError | AttributeError

text \<open>\<open>xs[i]\<close> for a literal index \<open>i \<ge> 0\<close>: Python raises IndexError out of range.\<close>

definition item :: "'a list \<Rightarrow> nat \<Rightarrow> error + 'a" where
  "item xs i = (if i < length xs then Inr (xs ! i) else Inl IndexError)"

text \<open>\<open>d.get(key, default)\<close> on the keyword dictionary; an absent key is \<open>None\<close>.\<close>

definition kwargs_get :: "'a option \<Rightarrow> 'a \<Rightarrow> 'a" where
  "kwargs_get v d = (case v of None \<Rightarrow> d | Some x \<Rightarrow> x)"

text \<open>A statement that may raise, followed by the rest of the body.\<close>

definition ebind :: "error + 'a \<Rightarrow> ('a \<Rightarrow> error + 'b) \<Rightarrow> error + 'b" where
  "ebind m f = (case m of Inl e \<Rightarrow> Inl e | Inr v \<Rightarrow> f v)"

subsection \<open>The host framework: rectangles, surfaces, fonts\<close>

type_synonym color = "int list"

record Rect =
  r_x :: int
  r_y :: int
  r_w :: int
  r_h :: int

text \<open>
  Modelled from the spec: the rectangle abstraction of the host framework (pygame.Rect) is not
  part of the repository; section 6 of the spec gives it anchor points that can be read and
  set. An anchor is a point of the rectangle; setting it moves the rectangle and keeps its
  size.
\<close>

definition topleft :: "Rect \<Rightarrow> int \<times> int" where
  "topleft r = (r_x r, r_y r)"

definition topright :: "Rect \<Rightarrow> int \<times> int" where
  "topright r = (r_x r + r_w r, r_y r)"

definition bottomleft :: "Rect \<Rightarrow> int \<times> int" where
  "bottomleft r = (r_x r, r_y r + r_h r)"

definition bottomright :: "Rect \<Rightarrow> int \<times> int" where
  "bottomright r = (r_x r + r_w r, r_y r + r_h r)"

definition center :: "Rect \<Rightarrow> int \<times> int" where
  "center r = (r_x r + r_w r div 2, r_y r + r_h r div 2)"

definition centery :: "Rect \<Rightarrow> int" where
  "centery r = r_y r + r_h r div 2"

definition left :: "Rect \<Rightarrow> int" where
  "left r = r_x r"

definition right :: "Rect \<Rightarrow> int" where
  "right r = r_x r + r_w r"

definition set_topleft :: "Rect \<Rightarrow> int \<times> int \<Rightarrow> Rect" where
  "set_topleft r p = r\<lparr>r_x := fst p, r_y := snd p\<rparr>"

definition set_topright :: "Rect \<Rightarrow> int \<times> int \<Rightarrow> Rect" where
  "set_topright r p = r\<lparr>r_x := fst p - r_w r, r_y := snd p\<rparr>"

definition set_bottomleft :: "Rect \<Rightarrow> int \<times> int \<Rightarrow> Rect" where
  "set_bottomleft r p = r\<lparr>r_x := fst p, r_y := snd p - r_h r\<rparr>"

definition set_bottomright :: "Rect \<Rightarrow> int \<times> int \<Rightarrow> Rect" where
  "set_bottomright r p = r\<lparr>r_x := fst p - r_w r, r_y := snd p - r_h r\<rparr>"

definition set_center :: "Rect \<Rightarrow> int \<times> int \<Rightarrow> Rect" where
  "set_center r p = r\<lparr>r_x := fst p - r_w r div 2, r_y := snd p - r_h r div 2\<rparr>"

definition set_centery :: "Rect \<Rightarrow> int \<Rightarrow> Rect" where
  "set_centery r v = r\<lparr>r_y := v - r_h r div 2\<rparr>"

definition set_left :: "Rect \<Rightarrow> int \<Rightarrow> Rect" where
  "set_left r v = r\<lparr>r_x := v\<rparr>"

definition set_right :: "Rect \<Rightarrow> int \<Rightarrow> Rect" where
  "set_right r v = r\<lparr>r_x := v - r_w r\<rparr>"

text \<open>
  \<open>rect.anchor = pos\<close> where \<open>pos\<close> is a sequence the caller supplied: the host takes a pair
  of numbers and raises TypeError on anything else.
\<close>

definition assign :: "(Rect \<Rightarrow> int \<times> int \<Rightarrow> Rect) \<Rightarrow> Rect \<Rightarrow> int list \<Rightarrow> error + Rect" where
  "assign setter r p = (case p of [px, py] \<Rightarrow> Inr (setter r (px, py)) | _ \<Rightarrow> Inl TypeError)"

text \<open>
  Modelled from the spec: the surface abstraction of the host framework (pygame.Surface) is
  not part of the repository; section 6 of the spec gives it allocation from a width and a
  height, with or without an alpha channel, \<open>fill\<close>, \<open>blit\<close> and a bounding rectangle. A
  surface is its dimensions, whether it has an alpha channel, the colour it was last filled
  with, and the surfaces drawn on it since, each with the rectangle it was drawn at. A new
  surface is black. The host's own checks of the dimensions are not modelled, except that
  the size is a pair.
\<close>

datatype Surface =
  Surface (s_size: "int \<times> int") (s_alpha: bool) (s_fill: color)
    (s_blits: "(Surface \<times> Rect) list")

definition Surface_new :: "int list \<Rightarrow> error + Surface" where
  "Surface_new sz =
     (case sz of [w, h] \<Rightarrow> Inr (Surface (w, h) False [0, 0, 0] []) | _ \<Rightarrow> Inl ValueError)"

definition convert :: "Surface \<Rightarrow> Surface" where
  "convert s = Surface (s_size s) False (s_fill s) (s_blits s)"

definition convert_alpha :: "Surface \<Rightarrow> Surface" where
  "convert_alpha s = Surface (s_size s) True (s_fill s) (s_blits s)"

definition fill :: "Surface \<Rightarrow> color \<Rightarrow> Surface" where
  "fill s c = Surface (s_size s) (s_alpha s) c []"

definition blit :: "Surface \<Rightarrow> Surface \<Rightarrow> Rect \<Rightarrow> Surface" where
  "blit s src dest = Surface (s_size s) (s_alpha s) (s_fill s) (s_blits s @ [(src, dest)])"

definition get_rect :: "Surface \<Rightarrow> Rect" where
  "get_rect s = \<lparr>r_x = 0, r_y = 0, r_w = fst (s_size s), r_h = snd (s_size s)\<rparr>"

text \<open>
  Modelled from the spec: a font of the host framework (pygame.font.SysFont) is a family
  name, or None for the default family, and a size. Rendering a text is the host's; it is
  the parameter \<open>render\<close> of \<open>rendTxt\<close> and \<open>draw\<close> below.
\<close>

record Font =
  f_name :: "string option"
  f_size :: int

definition SysFont :: "string option \<Rightarrow> int \<Rightarrow> Font" where
  "SysFont name sz = \<lparr>f_name = name, f_size = sz\<rparr>"

subsection \<open>Python numbers and strings\<close>

text \<open>
  \<open>int(x)\<close> of a float truncates towards zero. A float is modelled by the real number
  it stands for.
\<close>

definition py_int :: "real \<Rightarrow> int" where
  "py_int q = (if 0 \<le> q then \<lfloor>q\<rfloor> else \<lceil>q\<rceil>)"

text \<open>The truth value of an attribute that is None or an int: None and 0 are false.\<close>

definition truthy :: "int option \<Rightarrow> bool" where
  "truthy v = (case v of None \<Rightarrow> False | Some n \<Rightarrow> n \<noteq> 0)"

text \<open>\<open>'%i' % n\<close>: the decimal digits of \<open>n\<close>, with a minus sign when it is negative.\<close>

fun dec_nat :: "nat \<Rightarrow> string" where
  "dec_nat n =
     (if n < 10 then [''0123456789'' ! n]
      else dec_nat (n div 10) @ [''0123456789'' ! (n mod 10)])"

declare dec_nat.simps [simp del]

definition format_i :: "int \<Rightarrow> string" where
  "format_i n = (if n < 0 then ''-'' @ dec_nat (nat (- n)) else dec_nat (nat n))"

subsection \<open>The Button object\<close>

text \<open>
  The attributes of a Button. \<open>id\<close> and \<open>size\<close> are primed, \<open>_clicked\<close> is \<open>u_clicked\<close>.
  \<open>surf\<close> and \<open>rect\<close> are None until \<open>getSurf\<close> and \<open>getRect\<close> have assigned them.
  \<open>hovered\<close> and \<open>_clicked\<close> are class attributes, False and None, until an instance is
  assigned its own.
\<close>

record Button =
  id' :: int
  title :: string
  tag :: string
  size' :: "int list"
  pos :: "int list"
  align_text :: string
  font_unselected :: color
  font_selected :: color
  font :: Font
  button_color :: color
  button_color_sel :: color
  highlight_button :: bool
  shadow_color :: color
  offset :: "int list"
  v_attr :: string
  surf :: "Surface option"
  rect :: "Rect option"
  hovered :: bool
  u_clicked :: "int option"

subsection \<open>clicked\<close>

text \<open>
  \<open>seconds = (pygame.time.get_ticks() - self._clicked) / 1000\<close>. The clock is read once in
  each call of \<open>clicked\<close>; its reading is the argument \<open>ticks\<close>. Python's \<open>/\<close> on two ints gives
  the double nearest to the exact quotient. Rounding to nearest is monotone and \<open>.5\<close> is a
  double, so the test \<open>seconds > .5\<close> has the same outcome on the double as on the exact
  quotient, which is what the model compares.
\<close>

definition seconds :: "int \<Rightarrow> int \<Rightarrow> real" where
  "seconds ticks t = of_int (ticks - t) / 1000"

text \<open>
  In the else branch \<open>self._clicked\<close> is true, so it is an int other than 0, and \<open>the\<close>
  reads it.
\<close>

definition clicked :: "int \<Rightarrow> Button \<Rightarrow> bool \<times> Button" where
  "clicked ticks b =
     (if \<not> truthy (u_clicked b) then (False, b\<lparr>u_clicked := Some ticks\<rparr>)
      else
        (True,
         if seconds ticks (the (u_clicked b)) > 1 / 2 then b\<lparr>u_clicked := None\<rparr> else b))"

subsection \<open>getColors, getSurf, getRect, makeButton\<close>

definition getColors :: "Button \<Rightarrow> bool \<Rightarrow> color" where
  "getColors b txt =
     (if hovered b then (if txt then font_selected b else button_color_sel b)
      else (if txt then font_unselected b else button_color b))"

text \<open>
  \<open>0 not in offset\<close> is membership in the sequence. The host's \<open>fill\<close> rejects a value that
  is not a colour; that check is the host's and is not modelled.
\<close>

definition getSurf :: "Button \<Rightarrow> error + Button" where
  "getSurf b =
     (let sz = size' b; off = offset b in
      if 0 \<notin> set off then
        ebind (item sz 0) (\<lambda>s0.
        ebind (item off 0) (\<lambda>o0.
        ebind (item sz 1) (\<lambda>s1.
        ebind (item off 1) (\<lambda>o1.
        ebind (Surface_new [s0 + o0, s1 + o1]) (\<lambda>s.
          Inr (b\<lparr>surf := Some (fill (convert_alpha s) [0, 0, 0, 0])\<rparr>))))))
      else
        ebind (Surface_new sz) (\<lambda>s. Inr (b\<lparr>surf := Some (convert s)\<rparr>)))"

definition getRect :: "Button \<Rightarrow> error + Button" where
  "getRect b =
     (let p = pos b; va = v_attr b in
      ebind (case surf b of None \<Rightarrow> Inl AttributeError | Some s \<Rightarrow> Inr (get_rect s)) (\<lambda>r.
      ebind
        (if va = ''center'' then assign set_center r p
         else if va = ''topleft'' then assign set_topleft r p
         else if va = ''topright'' then assign set_topright r p
         else if va = ''bottomleft'' then assign set_bottomleft r p
         else if va = ''bottomright'' then assign set_bottomright r p
         else Inr r)
        (\<lambda>r'. Inr (b\<lparr>rect := Some r'\<rparr>))))"

text \<open>
  \<open>makeButton\<close> returns the list \<open>button\<close>: the face's surface and rectangle, then the
  shadow's when there is one.
\<close>

definition makeButton :: "Button \<Rightarrow> error + (Surface \<times> Rect) list" where
  "makeButton b =
     (let sz = size' b; off = offset b in
      ebind (Surface_new sz) (\<lambda>s.
        let button_surf =
              (if highlight_button b then fill (convert s) (getColors b False)
               else fill (convert s) (button_color b));
            button_rect = get_rect button_surf;
            button = [(button_surf, button_rect)]
        in
          if 0 \<notin> set off then
            ebind (Surface_new sz) (\<lambda>s2.
              let shadow_surf = fill (convert s2) (shadow_color b);
                  shadow_rect = get_rect shadow_surf;
                  xy = topleft button_rect
              in
                ebind (item off 0) (\<lambda>o0.
                ebind (item off 1) (\<lambda>o1.
                  Inr (button @
                    [(shadow_surf, set_topleft shadow_rect (fst xy + o0, snd xy + o1))]))))
          else Inr button))"

subsection \<open>rendTxt and draw\<close>

definition rendTxt ::
  "(Font \<Rightarrow> string \<Rightarrow> bool \<Rightarrow> color \<Rightarrow> Surface) \<Rightarrow> Button \<Rightarrow> Surface \<times> Rect" where
  "rendTxt render b =
     (let title_surf = render (font b) (title b) True (getColors b True)
      in (title_surf, get_rect title_surf))"

text \<open>
  \<open>draw\<close> assigns nothing to \<open>self\<close>, but it draws on \<open>self.surf\<close>, so the Button comes back
  with that surface changed, next to the surface it was asked to draw on.
\<close>

definition draw ::
  "(Font \<Rightarrow> string \<Rightarrow> bool \<Rightarrow> color \<Rightarrow> Surface) \<Rightarrow> Button \<Rightarrow> Surface \<Rightarrow>
   error + (Button \<times> Surface)" where
  "draw render b surface =
     (let align = align_text b in
      ebind (makeButton b) (\<lambda>button.
        let tt = rendTxt render b; titleS = fst tt; titleR0 = snd tt in
        ebind (item button 0) (\<lambda>face.
          let face_rect = snd face;
              titleR =
                (if align = ''center'' then set_center titleR0 (center face_rect)
                 else if align = ''left'' then
                   set_centery (set_left titleR0 (left face_rect + 4)) (centery face_rect)
                 else if align = ''right'' then
                   set_centery (set_right titleR0 (right face_rect - 4)) (centery face_rect)
                 else titleR0);
              face_surf = blit (fst face) titleS titleR
          in
            ebind (case surf b of None \<Rightarrow> Inl AttributeError | Some sf \<Rightarrow> Inr sf) (\<lambda>sf.
            ebind
              (if length button = 2 then
                 ebind (item button 1) (\<lambda>shadow. Inr (blit sf (fst shadow) (snd shadow)))
               else Inr sf)
              (\<lambda>sf1.
                let sf2 = blit sf1 face_surf face_rect in
                ebind (case rect b of None \<Rightarrow> Inl AttributeError | Some r \<Rightarrow> Inr r) (\<lambda>r.
                  Inr (b\<lparr>surf := Some sf2\<rparr>, blit surface sf2 r)))))))"

subsection \<open>The constructor\<close>

text \<open>
  \<open>nextid\<close> is \<open>itertools.count().__next__\<close>, one counter for the whole class: the state is
  the next value, 0 when the process starts; a call returns it and leaves its successor.
\<close>

definition nextid :: "int \<Rightarrow> int \<times> int" where
  "nextid c = (c, c + 1)"

definition nextid_start :: int where
  "nextid_start = 0"

text \<open>
  The keyword arguments; a key the caller did not pass is None. The default of
  \<open>font_name\<close> is None itself, so \<open>kwargs.get('font_name', None)\<close> is the field.
\<close>

record kwargs =
  kw_pos :: "int list option"
  kw_align_text :: "string option"
  kw_font_name :: "string option"
  kw_font_size :: "int option"
  kw_unselected :: "color option"
  kw_selected :: "color option"
  kw_amount :: "real option"
  kw_button_color :: "color option"
  kw_button_color_sel :: "color option"
  kw_highlight_button :: "bool option"
  kw_shadow_color :: "color option"
  kw_offset :: "int list option"
  kw_v_attr :: "string option"

definition no_kwargs :: kwargs where
  "no_kwargs =
     \<lparr>kw_pos = None, kw_align_text = None, kw_font_name = None, kw_font_size = None,
      kw_unselected = None, kw_selected = None, kw_amount = None, kw_button_color = None,
      kw_button_color_sel = None, kw_highlight_button = None, kw_shadow_color = None,
      kw_offset = None, kw_v_attr = None\<rparr>"

text \<open>
  The mouse over colour: \<open>tuple([min(255, int(c*amount)) for c in color])\<close>. \<open>amount\<close> is a
  float, so \<open>c*amount\<close> is a product of doubles, rounded as the machine rounds it; that
  product is the parameter \<open>fmul\<close>. \<open>exact_mul\<close> is the product where it is exact: when
  \<open>amount\<close> is an int, and when the exact product is a double, as it is for the default
  1.5 and every channel of a colour.
\<close>

definition color_sel :: "(int \<Rightarrow> real \<Rightarrow> real) \<Rightarrow> real \<Rightarrow> color \<Rightarrow> color" where
  "color_sel fmul amount color = map (\<lambda>c. min 255 (py_int (fmul c amount))) color"

definition exact_mul :: "int \<Rightarrow> real \<Rightarrow> real" where
  "exact_mul c amount = of_int c * amount"

text \<open>
  \<open>__init__\<close>. A positional argument that is not passed is None and takes its default.
  The defaults of \<open>kwargs.get\<close> are evaluated whether the key is there or not, so
  \<open>size[0]\<close> and \<open>size[1]\<close> are read in every call. \<open>int((size[0]+size[1])/3)\<close> divides two
  ints into a double and truncates it; the quotient is at least a third away from the next
  integer unless it is one, so truncating the exact quotient gives the same. The
  counter has moved on also when the constructor raises.
\<close>

definition Button_init ::
  "(int \<Rightarrow> real \<Rightarrow> real) \<Rightarrow> int \<Rightarrow> string option \<Rightarrow> int list option \<Rightarrow> kwargs \<Rightarrow>
   (error + Button) \<times> int" where
  "Button_init fmul counter title_arg size_arg kw =
     (let title_p = (case title_arg of None \<Rightarrow> ''button'' | Some t \<Rightarrow> t);
          size_p = (case size_arg of None \<Rightarrow> [60, 20] | Some s \<Rightarrow> s);
          ic = nextid counter;
          self_id = fst ic;
          self_title =
            (if title_p = ''button'' then title_p @ '' '' @ format_i self_id else title_p)
      in
        (ebind (item size_p 0) (\<lambda>s0.
         ebind (item size_p 1) (\<lambda>s1.
           let font_name = kw_font_name kw;
               font_size =
                 kwargs_get (kw_font_size kw)
                   (py_int (of_int (s0 + s1) / 3) - int (length title_p));
               amount = kwargs_get (kw_amount kw) (3 / 2);
               bc = kwargs_get (kw_button_color kw) [70, 130, 180];
               self =
                 \<lparr>id' = self_id, title = self_title, tag = self_title, size' = size_p,
                  pos = kwargs_get (kw_pos kw) [0, 0],
                  align_text = kwargs_get (kw_align_text kw) ''center'',
                  font_unselected = kwargs_get (kw_unselected kw) [215, 255, 255],
                  font_selected = kwargs_get (kw_selected kw) [225, 255, 255],
                  font = SysFont font_name font_size,
                  button_color = bc,
                  button_color_sel =
                    kwargs_get (kw_button_color_sel kw) (color_sel fmul amount bc),
                  highlight_button = kwargs_get (kw_highlight_button kw) False,
                  shadow_color = kwargs_get (kw_shadow_color kw) [99, 184, 255],
                  offset = kwargs_get (kw_offset kw) [3, 2],
                  v_attr = kwargs_get (kw_v_attr kw) ''topleft'',
                  surf = None, rect = None, hovered = False, u_clicked = None\<rparr>
           in ebind (getSurf self) getRect)),
         snd ic))"

subsection \<open>Sequences of calls\<close>

text \<open>
  The results of calling \<open>clicked\<close> on one Button once at each clock reading of a list, in
  order, and the Button after the last call.
\<close>

fun clicked_calls :: "int list \<Rightarrow> Button \<Rightarrow> bool list \<times> Button" where
  "clicked_calls [] b = ([], b)"
| "clicked_calls (t # ts) b =
     (let rb = clicked t b; rest = clicked_calls ts (snd rb)
      in (fst rb # fst rest, snd rest))"

text \<open>
  A process constructs Buttons one after the other, each call with its title, its size and
  its keyword arguments. \<open>construct_all\<close> threads the counter of \<open>nextid\<close> through the
  calls and keeps what each one returned or raised; \<open>ids\<close> reads the ids of the Buttons that
  were constructed, in the order of construction.
\<close>

fun construct_all ::
  "(int \<Rightarrow> real \<Rightarrow> real) \<Rightarrow> int \<Rightarrow> (string option \<times> int list option \<times> kwargs) list \<Rightarrow>
   (error + Button) list \<times> int" where
  "construct_all fmul c [] = ([], c)"
| "construct_all fmul c ((ta, sa, kw) # calls) =
     (let rc = Button_init fmul c ta sa kw; rest = construct_all fmul (snd rc) calls
      in (fst rc # fst rest, snd rest))"

fun ids :: "(error + Button) list \<Rightarrow> int list" where
  "ids [] = []"
| "ids (Inl e # rs) = ids rs"
| "ids (Inr b # rs) = id' b # ids rs"

text \<open>
  The mouse over colour as the specification words it, with the floor of the product, to
  compare with \<open>color_sel\<close>.
\<close>

definition color_sel_spec :: "(int \<Rightarrow> real \<Rightarrow> real) \<Rightarrow> real \<Rightarrow> color \<Rightarrow> color" where
  "color_sel_spec fmul amount color = map (\<lambda>c. min 255 \<lfloor>fmul c amount\<rfloor>) color"

text \<open>The Button that \<open>Button()\<close> constructs first in a process.\<close>

definition default_button :: Button where
  "default_button =
     \<lparr>id' = 0, title = ''button 0'', tag = ''button 0'', size' = [60, 20], pos = [0, 0],
      align_text = ''center'', font_unselected = [215, 255, 255],
      font_selected = [225, 255, 255], font = \<lparr>f_name = None, f_size = 20\<rparr>,
      button_color = [70, 130, 180], button_color_sel = [105, 195, 255],
      highlight_button = False, shadow_color = [99, 184, 255], offset = [3, 2],
      v_attr = ''topleft'', surf = Some (Surface (63, 22) True [0, 0, 0, 0] []),
      rect = Some \<lparr>r_x = 0, r_y = 0, r_w = 63, r_h = 22\<rparr>, hovered = False,
      u_clicked = None\<rparr>"

text \<open>A renderer for the examples: every text comes out as a surface of 30 by 10.\<close>

definition render_30x10 :: "Font \<Rightarrow> string \<Rightarrow> bool \<Rightarrow> color \<Rightarrow> Surface" where
  "render_30x10 f txt antialias c = Surface (30, 10) True c []"

section \<open>Properties\<close>

subsection \<open>What each method assigns\<close>

lemma getSurf_frame: "getSurf b = Inr b' \<Longrightarrow> \<exists>s. b' = b\<lparr>surf := Some s\<rparr>"
  by (auto simp: getSurf_def Let_def ebind_def split: if_splits sum.splits)

lemma getRect_frame: "getRect b = Inr b' \<Longrightarrow> \<exists>r. b' = b\<lparr>rect := Some r\<rparr>"
  by (auto simp: getRect_def Let_def ebind_def split: if_splits sum.splits option.splits)

lemma draw_frame: "draw render b s = Inr (b', s') \<Longrightarrow> \<exists>sf. b' = b\<lparr>surf := Some sf\<rparr>"
  by (auto simp: draw_def Let_def ebind_def split: sum.splits option.splits if_splits)

lemma clicked_frame: "\<exists>v. snd (clicked ticks b) = b\<lparr>u_clicked := v\<rparr>"
proof (cases "truthy (u_clicked b)")
  case True
  show ?thesis
  proof (cases "seconds ticks (the (u_clicked b)) > 1 / 2")
    case True
    with \<open>truthy (u_clicked b)\<close> have "snd (clicked ticks b) = b\<lparr>u_clicked := None\<rparr>"
      by (simp add: clicked_def)
    then show ?thesis by blast
  next
    case False
    with \<open>truthy (u_clicked b)\<close> have "snd (clicked ticks b) = b\<lparr>u_clicked := u_clicked b\<rparr>"
      by (simp add: clicked_def)
    then show ?thesis by blast
  qed
next
  case False
  then have "snd (clicked ticks b) = b\<lparr>u_clicked := Some ticks\<rparr>"
    by (simp add: clicked_def)
  then show ?thesis by blast
qed

subsection \<open>The click timer\<close>

text \<open>The timer has expired when more than 500 ticks have passed.\<close>

lemma seconds_gt_half: "seconds ticks t > 1 / 2 \<longleftrightarrow> ticks - t > 500"
  by (simp add: seconds_def field_simps) linarith

lemma clicked_clear:
  "\<not> truthy (u_clicked b) \<Longrightarrow> clicked ticks b = (False, b\<lparr>u_clicked := Some ticks\<rparr>)"
  by (simp add: clicked_def)

lemma clicked_set:
  "u_clicked b = Some t \<Longrightarrow> t \<noteq> 0 \<Longrightarrow>
   clicked ticks b = (True, if ticks - t > 500 then b\<lparr>u_clicked := None\<rparr> else b)"
  unfolding clicked_def seconds_gt_half by (simp add: truthy_def)

lemma default_button_sel:
  "id' default_button = 0"
  "title default_button = ''button 0''"
  "tag default_button = ''button 0''"
  "size' default_button = [60, 20]"
  "offset default_button = [3, 2]"
  "pos default_button = [0, 0]"
  "button_color default_button = [70, 130, 180]"
  "button_color_sel default_button = [105, 195, 255]"
  "shadow_color default_button = [99, 184, 255]"
  "highlight_button default_button = False"
  "hovered default_button = False"
  "u_clicked default_button = None"
  "v_attr default_button = ''topleft''"
  "surf default_button = Some (Surface (63, 22) True [0, 0, 0, 0] [])"
  by (simp_all add: default_button_def)

lemma default_button_clear: "\<not> truthy (u_clicked default_button)"
  by (simp add: truthy_def default_button_sel)

text \<open>
  X1. When the clock does not read 0 at the first call, four calls of \<open>clicked\<close> on a
  Button whose timer is clear, the second within 500 ms of the first and the third more
  than 500 ms after it, return False, True, True, False.
\<close>

theorem clicked_calls_nonzero_clock:
  assumes "\<not> truthy (u_clicked b)" and "t1 \<noteq> 0" and "t2 - t1 \<le> 500" and "500 < t3 - t1"
  shows "fst (clicked_calls [t1, t2, t3, t4] b) = [False, True, True, False]"
  using assms by (simp add: Let_def clicked_clear clicked_set truthy_def)

theorem clicked_calls_nonzero_clock_witness:
  "fst (clicked_calls [1000, 1000, 1600, 1600] default_button) = [False, True, True, False]"
  using clicked_calls_nonzero_clock [OF default_button_clear, of 1000 1000 1600 1600]
  by simp

text \<open>
  C1. The sequence of four calls of \<open>clicked\<close> on a Button whose timer is clear, the second
  at once after the first, the third 600 ms after the first and the fourth at once after
  the third, is to return False, True, True, False. When the clock reads 0 at the first
  call it does not: the timestamp 0 is stored, \<open>not self._clicked\<close> takes it for no
  timestamp, and the calls at the readings 0, 0, 600, 600 return False, False, False,
  True.
\<close>

theorem clicked_calls_from_clock_zero:
  "fst (clicked_calls [0, 0, 600, 600] (b\<lparr>u_clicked := None\<rparr>)) = [False, False, False, True]"
  by (simp add: Let_def clicked_clear clicked_set truthy_def)

text \<open>
  C2, as the code has it. When the timer holds a timestamp other than 0, a call of
  \<open>clicked\<close> made more than 500 ms after the timestamp clears the timer and returns True;
  a call made at most 500 ms after it returns True and leaves the Button as it is. At
  exactly 500 ms the timer is not cleared.
\<close>

theorem clicked_timer_expiry:
  "u_clicked b = Some t \<Longrightarrow> t \<noteq> 0 \<Longrightarrow>
   (500 < ticks - t \<longrightarrow> clicked ticks b = (True, b\<lparr>u_clicked := None\<rparr>)) \<and>
   (ticks - t \<le> 500 \<longrightarrow> clicked ticks b = (True, b)) \<and>
   (ticks - t = 500 \<longrightarrow> u_clicked (snd (clicked ticks b)) = Some t)"
  by (simp add: clicked_set)

theorem clicked_timer_expiry_witness:
  "clicked 1501 (default_button\<lparr>u_clicked := Some 1000\<rparr>) =
     (True, default_button\<lparr>u_clicked := None\<rparr>) \<and>
   clicked 1200 (default_button\<lparr>u_clicked := Some 1000\<rparr>) =
     (True, default_button\<lparr>u_clicked := Some 1000\<rparr>) \<and>
   u_clicked (snd (clicked 1500 (default_button\<lparr>u_clicked := Some 1000\<rparr>))) = Some 1000"
  using clicked_timer_expiry [of "default_button\<lparr>u_clicked := Some 1000\<rparr>" 1000 1501]
    clicked_timer_expiry [of "default_button\<lparr>u_clicked := Some 1000\<rparr>" 1000 1200]
    clicked_timer_expiry [of "default_button\<lparr>u_clicked := Some 1000\<rparr>" 1000 1500]
  by simp

text \<open>
  C2 as it is stated fails at exactly 500 ms: with the timestamp 1000, the call at the
  clock reading 1500 leaves the timestamp in the timer.
\<close>

theorem clicked_at_500ms_keeps_timer:
  "u_clicked (snd (clicked 1500 (default_button\<lparr>u_clicked := Some 1000\<rparr>))) = Some 1000"
  by (simp add: clicked_set)

text \<open>
  C10. When the clock reads 0 at the call of \<open>clicked\<close> that records the timestamp, the
  call returns False and stores 0; the stored 0 counts as no timestamp, so the call that
  follows, at any clock reading, returns False as well and stores its own reading.
\<close>

theorem clicked_clock_zero_permits_next:
  "\<not> truthy (u_clicked b) \<Longrightarrow>
   clicked 0 b = (False, b\<lparr>u_clicked := Some 0\<rparr>) \<and>
   \<not> truthy (u_clicked (snd (clicked 0 b))) \<and>
   clicked ticks (snd (clicked 0 b)) = (False, b\<lparr>u_clicked := Some ticks\<rparr>)"
  by (simp add: clicked_def truthy_def)

theorem clicked_clock_zero_permits_next_witness:
  "\<not> truthy (u_clicked default_button) \<and>
   clicked 0 default_button = (False, default_button\<lparr>u_clicked := Some 0\<rparr>) \<and>
   \<not> truthy (u_clicked (snd (clicked 0 default_button))) \<and>
   clicked 0 (snd (clicked 0 default_button)) = (False, default_button\<lparr>u_clicked := Some 0\<rparr>)"
  using default_button_clear
    clicked_clock_zero_permits_next [OF default_button_clear, of 0]
  by (rule conjI)

subsection \<open>The constructor\<close>

lemma Button_init_fields:
  assumes "Button_init fmul c ta sa kw = (Inr b, c')"
  shows "c' = c + 1"
    and "id' b = c"
    and "title b =
      (let t = (case ta of None \<Rightarrow> ''button'' | Some t \<Rightarrow> t)
       in if t = ''button'' then ''button '' @ format_i c else t)"
    and "tag b = title b"
    and "button_color b = kwargs_get (kw_button_color kw) [70, 130, 180]"
    and "button_color_sel b =
      kwargs_get (kw_button_color_sel kw)
        (color_sel fmul (kwargs_get (kw_amount kw) (3 / 2))
          (kwargs_get (kw_button_color kw) [70, 130, 180]))"
  using assms
  by (auto simp: Button_init_def Let_def ebind_def nextid_def split: sum.splits
      dest!: getSurf_frame getRect_frame)

text \<open>A Button that was constructed went through \<open>getSurf\<close> and then \<open>getRect\<close>.\<close>

lemma Button_init_steps:
  assumes "Button_init fmul c ta sa kw = (Inr b, c')"
  shows "\<exists>self self1. getSurf self = Inr self1 \<and> getRect self1 = Inr b \<and>
    surf self = None \<and> rect self = None \<and> hovered self = False \<and> u_clicked self = None"
  using assms
  apply (auto simp: Button_init_def Let_def ebind_def split: sum.splits)
  apply (intro exI conjI)
       apply assumption
      apply assumption
     apply simp_all
  done

lemma Button_init_counter: "snd (Button_init fmul c ta sa kw) = c + 1"
  by (simp add: Button_init_def Let_def nextid_def)

lemma Button_init_id: "fst (Button_init fmul c ta sa kw) = Inr b \<Longrightarrow> id' b = c"
  using Button_init_fields(2) [of fmul c ta sa kw b "snd (Button_init fmul c ta sa kw)"]
  by (metis prod.collapse)

text \<open>Some constructor calls, evaluated.\<close>

lemma format_i_0: "format_i 0 = ''0''"
  by (simp add: format_i_def dec_nat.simps)

lemma format_i_12: "format_i 12 = ''12''"
  by (simp add: format_i_def dec_nat.simps)

lemmas init_eval =
  Button_init_def no_kwargs_def kwargs_get_def nextid_def nextid_start_def item_def ebind_def
  Let_def getSurf_def getRect_def Surface_new_def fill_def convert_alpha_def convert_def
  get_rect_def assign_def set_topleft_def SysFont_def color_sel_def exact_mul_def py_int_def
  format_i_0 default_button_def

lemma default_button_constructed:
  "Button_init exact_mul nextid_start None None no_kwargs = (Inr default_button, 1)"
  by (simp add: init_eval)

lemma button_title_constructed:
  "Button_init exact_mul nextid_start (Some ''button'') None no_kwargs =
   (Inr default_button, 1)"
  by (simp add: init_eval)

lemma twelfth_constructed:
  "Button_init exact_mul 12 None None no_kwargs =
   (Inr (default_button\<lparr>id' := 12, title := ''button 12'', tag := ''button 12''\<rparr>), 13)"
  by (simp add: init_eval format_i_12)

lemma quit_constructed:
  "Button_init exact_mul 2 (Some ''Quit'') None no_kwargs =
   (Inr (default_button\<lparr>id' := 2, title := ''Quit'', tag := ''Quit'',
      font := \<lparr>f_name = None, f_size = 22\<rparr>\<rparr>), 3)"
  by (simp add: init_eval)

lemma short_size_raises:
  "Button_init exact_mul 1 None (Some [1]) no_kwargs = (Inl IndexError, 2)"
  by (simp add: Button_init_def nextid_def item_def ebind_def Let_def)

lemma demo_size_constructed:
  "Button_init exact_mul 0 (Some ''New'') (Some [85, 35]) no_kwargs =
   (Inr (default_button\<lparr>title := ''New'', tag := ''New'', size' := [85, 35],
      font := \<lparr>f_name = None, f_size = 37\<rparr>,
      surf := Some (Surface (88, 37) True [0, 0, 0, 0] []),
      rect := Some \<lparr>r_x = 0, r_y = 0, r_w = 88, r_h = 37\<rparr>\<rparr>), 1)"
  by (simp add: init_eval)

lemma one_zero_offset_constructed:
  "Button_init exact_mul 0 (Some ''New'') (Some [85, 35]) (no_kwargs\<lparr>kw_offset := Some [0, 2]\<rparr>) =
   (Inr (default_button\<lparr>title := ''New'', tag := ''New'', size' := [85, 35],
      font := \<lparr>f_name = None, f_size = 37\<rparr>, offset := [0, 2],
      surf := Some (Surface (85, 35) False [0, 0, 0] []),
      rect := Some \<lparr>r_x = 0, r_y = 0, r_w = 85, r_h = 35\<rparr>\<rparr>), 1)"
  by (simp add: init_eval)

subsection \<open>The backing surface\<close>

lemma getSurf_pairs:
  "size' b = [w, h] \<Longrightarrow> offset b = [dx, dy] \<Longrightarrow>
   getSurf b =
     Inr (b\<lparr>surf := Some (if dx \<noteq> 0 \<and> dy \<noteq> 0
                           then Surface (w + dx, h + dy) True [0, 0, 0, 0] []
                           else Surface (w, h) False [0, 0, 0] [])\<rparr>)"
  by (auto simp: getSurf_def Let_def ebind_def item_def Surface_new_def fill_def convert_def
      convert_alpha_def)

text \<open>
  C3. For a Button of size \<open>(w, h)\<close> and shadow offset \<open>(dx, dy)\<close>, \<open>getSurf\<close> makes the
  backing surface: when neither \<open>dx\<close> nor \<open>dy\<close> is 0 it has the dimensions
  \<open>(w + dx, h + dy)\<close> and an alpha channel and is filled with the transparent colour
  \<open>(0, 0, 0, 0)\<close>; when either is 0 it has exactly the dimensions \<open>(w, h)\<close> and no alpha
  channel. That is the surface of every Button the constructor returns.
\<close>

theorem getSurf_backing_surface:
  "(size' b = [w, h] \<and> offset b = [dx, dy] \<longrightarrow>
      getSurf b =
        Inr (b\<lparr>surf := Some (if dx \<noteq> 0 \<and> dy \<noteq> 0
                              then Surface (w + dx, h + dy) True [0, 0, 0, 0] []
                              else Surface (w, h) False [0, 0, 0] [])\<rparr>)) \<and>
   (Button_init fmul c ta sa kw = (Inr b', c') \<and> size' b' = [w, h] \<and> offset b' = [dx, dy] \<longrightarrow>
      surf b' = Some (if dx \<noteq> 0 \<and> dy \<noteq> 0
                      then Surface (w + dx, h + dy) True [0, 0, 0, 0] []
                      else Surface (w, h) False [0, 0, 0] []))"
proof (intro conjI impI)
  assume "size' b = [w, h] \<and> offset b = [dx, dy]"
  then show "getSurf b =
        Inr (b\<lparr>surf := Some (if dx \<noteq> 0 \<and> dy \<noteq> 0
                              then Surface (w + dx, h + dy) True [0, 0, 0, 0] []
                              else Surface (w, h) False [0, 0, 0] [])\<rparr>)"
    by (simp add: getSurf_pairs)
next
  assume built: "Button_init fmul c ta sa kw = (Inr b', c') \<and> size' b' = [w, h] \<and>
    offset b' = [dx, dy]"
  then obtain self self1
    where s1: "getSurf self = Inr self1" and s2: "getRect self1 = Inr b'"
    using Button_init_steps [of fmul c ta sa kw b' c'] by blast
  from getSurf_frame [OF s1] getRect_frame [OF s2] built
  have "size' self = [w, h]" and "offset self = [dx, dy]" and "surf b' = surf self1"
    by auto
  moreover from this s1 getSurf_pairs [of self w h dx dy]
  have "self1 = self\<lparr>surf := Some (if dx \<noteq> 0 \<and> dy \<noteq> 0
                              then Surface (w + dx, h + dy) True [0, 0, 0, 0] []
                              else Surface (w, h) False [0, 0, 0] [])\<rparr>"
    by simp
  ultimately show "surf b' = Some (if dx \<noteq> 0 \<and> dy \<noteq> 0
                      then Surface (w + dx, h + dy) True [0, 0, 0, 0] []
                      else Surface (w, h) False [0, 0, 0] [])"
    by simp
qed

theorem getSurf_backing_surface_witness:
  "getSurf (default_button\<lparr>size' := [85, 35]\<rparr>) =
     Inr (default_button\<lparr>size' := [85, 35],
       surf := Some (Surface (88, 37) True [0, 0, 0, 0] [])\<rparr>) \<and>
   getSurf (default_button\<lparr>size' := [85, 35], offset := [0, 2]\<rparr>) =
     Inr (default_button\<lparr>size' := [85, 35], offset := [0, 2],
       surf := Some (Surface (85, 35) False [0, 0, 0] [])\<rparr>) \<and>
   map_sum id surf (fst (Button_init exact_mul 0 (Some ''New'') (Some [85, 35]) no_kwargs)) =
     Inr (Some (Surface (88, 37) True [0, 0, 0, 0] [])) \<and>
   map_sum id surf (fst (Button_init exact_mul 0 (Some ''New'') (Some [85, 35])
       (no_kwargs\<lparr>kw_offset := Some [0, 2]\<rparr>))) =
     Inr (Some (Surface (85, 35) False [0, 0, 0] []))"
  using
    getSurf_backing_surface [of "default_button\<lparr>size' := [85, 35]\<rparr>" 85 35 3 2
      exact_mul 0 "Some ''New''" "Some [85, 35]" no_kwargs
      "default_button\<lparr>title := ''New'', tag := ''New'', size' := [85, 35],
        font := \<lparr>f_name = None, f_size = 37\<rparr>,
        surf := Some (Surface (88, 37) True [0, 0, 0, 0] []),
        rect := Some \<lparr>r_x = 0, r_y = 0, r_w = 88, r_h = 37\<rparr>\<rparr>" 1]
    getSurf_backing_surface [of "default_button\<lparr>size' := [85, 35], offset := [0, 2]\<rparr>"
      85 35 0 2 exact_mul 0 "Some ''New''" "Some [85, 35]"
      "no_kwargs\<lparr>kw_offset := Some [0, 2]\<rparr>"
      "default_button\<lparr>title := ''New'', tag := ''New'', size' := [85, 35],
        font := \<lparr>f_name = None, f_size = 37\<rparr>, offset := [0, 2],
        surf := Some (Surface (85, 35) False [0, 0, 0] []),
        rect := Some \<lparr>r_x = 0, r_y = 0, r_w = 85, r_h = 35\<rparr>\<rparr>" 1]
  by (simp add: default_button_sel demo_size_constructed one_zero_offset_constructed)

subsection \<open>Title and tag\<close>

text \<open>
  C4, as the code has it. When no title is passed, or the title passed is the string
  \<open>button\<close> itself, the title of the Button is \<open>button\<close>, a space and the id in decimal
  digits; when any other title is passed, the title is that string as it is; and the tag
  is the title in every case.
\<close>

theorem Button_init_title:
  "Button_init fmul c ta sa kw = (Inr b, c') \<Longrightarrow>
   (ta = None \<longrightarrow> title b = ''button '' @ format_i (id' b)) \<and>
   (\<forall>t. ta = Some t \<and> t \<noteq> ''button'' \<longrightarrow> title b = t) \<and>
   (ta = Some ''button'' \<longrightarrow> title b = ''button '' @ format_i (id' b)) \<and>
   tag b = title b"
  using Button_init_fields(2,3,4) [of fmul c ta sa kw b c'] by (auto simp: Let_def)

theorem Button_init_title_witness:
  "map_sum id title (fst (Button_init exact_mul 12 None None no_kwargs)) = Inr ''button 12'' \<and>
   map_sum id tag (fst (Button_init exact_mul 12 None None no_kwargs)) = Inr ''button 12'' \<and>
   map_sum id title (fst (Button_init exact_mul 2 (Some ''Quit'') None no_kwargs)) = Inr ''Quit'' \<and>
   map_sum id tag (fst (Button_init exact_mul 2 (Some ''Quit'') None no_kwargs)) = Inr ''Quit''"
  using Button_init_title [OF twelfth_constructed] Button_init_title [OF quit_constructed]
  by (simp add: format_i_12 twelfth_constructed quit_constructed)

text \<open>
  C4 as it is stated fails for the title \<open>button\<close>: a caller who passes it gets the title
  \<open>button 0\<close>, not the string passed.
\<close>

theorem Button_init_title_button_passed:
  "fst (Button_init exact_mul nextid_start (Some ''button'') None no_kwargs) =
     Inr default_button \<and>
   title default_button = ''button 0''"
  by (simp add: button_title_constructed default_button_sel)

subsection \<open>The mouse over colour\<close>

text \<open>
  C5, as the code has it. For a Button constructed without a mouse over colour of its own,
  with the multiplier \<open>m\<close>: each channel of the mouse over colour is the smaller of 255
  and the product of the base channel and \<open>m\<close>, as Python computes it, truncated towards
  zero. Where no product is negative that is the smaller of 255 and the floor of the
  product.
\<close>

theorem Button_init_color_sel:
  "Button_init fmul c ta sa kw = (Inr b, c') \<Longrightarrow> kw_button_color_sel kw = None \<Longrightarrow>
   kwargs_get (kw_amount kw) (3 / 2) = m \<Longrightarrow>
   button_color_sel b =
     map (\<lambda>ch. min 255 (if 0 \<le> fmul ch m then \<lfloor>fmul ch m\<rfloor> else \<lceil>fmul ch m\<rceil>))
       (button_color b) \<and>
   ((\<forall>ch \<in> set (button_color b). 0 \<le> fmul ch m) \<longrightarrow>
      button_color_sel b = color_sel_spec fmul m (button_color b))"
  using Button_init_fields(5,6) [of fmul c ta sa kw b c']
  by (auto simp: kwargs_get_def color_sel_def color_sel_spec_def py_int_def)

theorem Button_init_color_sel_witness:
  "button_color_sel default_button = color_sel_spec exact_mul (3 / 2) [70, 130, 180] \<and>
   color_sel_spec exact_mul (3 / 2) [70, 130, 180] = [105, 195, 255]"
proof -
  have none: "kw_button_color_sel no_kwargs = None"
    by (simp add: no_kwargs_def)
  have amount: "kwargs_get (kw_amount no_kwargs) (3 / 2) = 3 / 2"
    by (simp add: no_kwargs_def kwargs_get_def)
  have nonneg: "\<forall>ch \<in> set (button_color default_button). 0 \<le> exact_mul ch (3 / 2)"
    by (simp add: default_button_sel exact_mul_def)
  from Button_init_color_sel [OF default_button_constructed none amount] nonneg
  have "button_color_sel default_button =
      color_sel_spec exact_mul (3 / 2) (button_color default_button)"
    by blast
  then show ?thesis
    by (simp add: default_button_sel color_sel_spec_def exact_mul_def)
qed

text \<open>
  C5 as it is stated fails where a product is negative and not whole: with the base colour
  \<open>(1, 3, 5)\<close> and the multiplier \<open>-0.5\<close> the products are \<open>-0.5\<close>, \<open>-1.5\<close> and \<open>-2.5\<close>,
  each of them a double; the code truncates them to \<open>(0, -1, -2)\<close> and the floor is
  \<open>(-1, -2, -3)\<close>.
\<close>

theorem color_sel_truncates_negative:
  "fst (Button_init exact_mul nextid_start None None
       (no_kwargs\<lparr>kw_amount := Some (- 1 / 2), kw_button_color := Some [1, 3, 5]\<rparr>)) =
     Inr (default_button\<lparr>button_color := [1, 3, 5], button_color_sel := [0, - 1, - 2]\<rparr>) \<and>
   color_sel_spec exact_mul (- 1 / 2) [1, 3, 5] = [- 1, - 2, - 3]"
  by (simp add: init_eval color_sel_spec_def ceiling_eq_iff)

subsection \<open>The ids\<close>

lemma construct_all_counter: "snd (construct_all fmul c calls) = c + int (length calls)"
  by (induction calls arbitrary: c) (auto simp: Let_def Button_init_counter)

lemma construct_all_length: "length (fst (construct_all fmul c calls)) = length calls"
  by (induction calls arbitrary: c) (auto simp: Let_def)

text \<open>The call at position \<open>i\<close> draws the id \<open>c + i\<close>, whatever the calls before it did.\<close>

lemma construct_all_nth:
  "i < length calls \<Longrightarrow> fst (construct_all fmul c calls) ! i = Inr b \<Longrightarrow> id' b = c + int i"
proof (induction calls arbitrary: c i)
  case Nil
  then show ?case by simp
next
  case (Cons call calls)
  obtain ta sa kw where call: "call = (ta, sa, kw)"
    by (cases call)
  show ?case
  proof (cases i)
    case 0
    with Cons.prems call show ?thesis
      by (simp add: Let_def Button_init_id)
  next
    case (Suc j)
    with Cons.prems call
    have "id' b = snd (Button_init fmul c ta sa kw) + int j"
      by (intro Cons.IH) (simp_all add: Let_def)
    with Suc show ?thesis
      by (simp add: Button_init_counter)
  qed
qed

lemma ids_bounds:
  "k \<in> set (ids (fst (construct_all fmul c calls))) \<Longrightarrow> c \<le> k \<and> k < c + int (length calls)"
proof (induction calls arbitrary: c)
  case Nil
  then show ?case by simp
next
  case (Cons call calls)
  obtain ta sa kw where call: "call = (ta, sa, kw)"
    by (cases call)
  show ?case
  proof (cases "fst (Button_init fmul c ta sa kw)")
    case (Inl e)
    with Cons.prems call have "k \<in> set (ids (fst (construct_all fmul (c + 1) calls)))"
      by (simp add: Let_def Button_init_counter)
    from Cons.IH [OF this] show ?thesis by simp
  next
    case (Inr b)
    with Cons.prems call
    have "k = c \<or> k \<in> set (ids (fst (construct_all fmul (c + 1) calls)))"
      by (auto simp: Let_def Button_init_counter Button_init_id)
    then show ?thesis
      using Cons.IH [of "c + 1"] by auto
  qed
qed

lemma ids_increasing: "sorted_wrt (<) (ids (fst (construct_all fmul c calls)))"
proof (induction calls arbitrary: c)
  case Nil
  then show ?case by simp
next
  case (Cons call calls)
  obtain ta sa kw where call: "call = (ta, sa, kw)"
    by (cases call)
  show ?case
  proof (cases "fst (Button_init fmul c ta sa kw)")
    case (Inl e)
    with call Cons.IH [of "c + 1"] show ?thesis
      by (simp add: Let_def Button_init_counter)
  next
    case (Inr b)
    have "c < k" if "k \<in> set (ids (fst (construct_all fmul (c + 1) calls)))" for k
      using ids_bounds [OF that] by simp
    with Inr call Cons.IH [of "c + 1"] show ?thesis
      by (simp add: Let_def Button_init_counter Button_init_id)
  qed
qed

lemma three_calls:
  "construct_all exact_mul nextid_start
     [(None, None, no_kwargs), (None, Some [1], no_kwargs), (Some ''Quit'', None, no_kwargs)] =
   ([Inr default_button, Inl IndexError,
     Inr (default_button\<lparr>id' := 2, title := ''Quit'', tag := ''Quit'',
       font := \<lparr>f_name = None, f_size = 22\<rparr>\<rparr>)], 3)"
  using default_button_constructed
  by (simp add: nextid_start_def Let_def short_size_raises quit_constructed)

text \<open>
  C6. In a process that constructs Buttons one after the other, the ids of the Buttons
  are strictly increasing in the order of construction, so pairwise distinct; the call at
  position \<open>i\<close>, counted from 0, gives its Button the id \<open>i\<close>, so the ids start at 0; every
  id given is below the value the counter holds afterwards, so none is given again. No
  method assigns the id: \<open>getSurf\<close>, \<open>getRect\<close>, \<open>clicked\<close> and \<open>draw\<close> leave it as it is.
\<close>

theorem ids_distinct_increasing:
  "sorted_wrt (<) (ids (fst (construct_all fmul nextid_start calls))) \<and>
   distinct (ids (fst (construct_all fmul nextid_start calls))) \<and>
   (\<forall>i<length calls. \<forall>b.
      fst (construct_all fmul nextid_start calls) ! i = Inr b \<longrightarrow> id' b = int i) \<and>
   (\<forall>k \<in> set (ids (fst (construct_all fmul nextid_start calls))).
      k < snd (construct_all fmul nextid_start calls)) \<and>
   (\<forall>b'. getSurf b = Inr b' \<longrightarrow> id' b' = id' b) \<and>
   (\<forall>b'. getRect b = Inr b' \<longrightarrow> id' b' = id' b) \<and>
   id' (snd (clicked ticks b)) = id' b \<and>
   (\<forall>b' s'. draw render b s = Inr (b', s') \<longrightarrow> id' b' = id' b)"
proof -
  let ?ids = "ids (fst (construct_all fmul nextid_start calls))"
  have inc: "sorted_wrt (<) ?ids"
    by (rule ids_increasing)
  then have dist: "distinct ?ids"
    by (simp add: strict_sorted_iff)
  have nth: "\<forall>i<length calls. \<forall>b.
      fst (construct_all fmul nextid_start calls) ! i = Inr b \<longrightarrow> id' b = int i"
    using construct_all_nth [of _ calls fmul nextid_start] by (simp add: nextid_start_def)
  have fresh: "\<forall>k \<in> set ?ids. k < snd (construct_all fmul nextid_start calls)"
    using ids_bounds [of _ fmul nextid_start calls] by (simp add: construct_all_counter)
  have surf: "\<forall>b'. getSurf b = Inr b' \<longrightarrow> id' b' = id' b"
    by (auto dest: getSurf_frame)
  have rect: "\<forall>b'. getRect b = Inr b' \<longrightarrow> id' b' = id' b"
    by (auto dest: getRect_frame)
  have click: "id' (snd (clicked ticks b)) = id' b"
    using clicked_frame [of ticks b] by auto
  have drw: "\<forall>b' s'. draw render b s = Inr (b', s') \<longrightarrow> id' b' = id' b"
    by (auto dest: draw_frame)
  from inc dist nth fresh surf rect click drw show ?thesis
    by blast
qed

text \<open>
  Three calls, of which the second raises IndexError on a size of one number: the Buttons
  of the first and the third have the ids 0 and 2.
\<close>

theorem ids_distinct_increasing_witness:
  "ids (fst (construct_all exact_mul nextid_start
     [(None, None, no_kwargs), (None, Some [1], no_kwargs),
      (Some ''Quit'', None, no_kwargs)])) = [0, 2] \<and>
   sorted_wrt (<) (ids (fst (construct_all exact_mul nextid_start
     [(None, None, no_kwargs), (None, Some [1], no_kwargs),
      (Some ''Quit'', None, no_kwargs)]))) \<and>
   distinct (ids (fst (construct_all exact_mul nextid_start
     [(None, None, no_kwargs), (None, Some [1], no_kwargs),
      (Some ''Quit'', None, no_kwargs)]))) \<and>
   id' (snd (clicked 7 default_button)) = id' default_button"
  using ids_distinct_increasing [of exact_mul
      "[(None, None, no_kwargs), (None, Some [1], no_kwargs), (Some ''Quit'', None, no_kwargs)]"
      default_button 7]
  by (simp add: three_calls default_button_sel del: construct_all.simps)

subsection \<open>Face and shadow\<close>

lemma makeButton_pairs:
  "size' b = [w, h] \<Longrightarrow> offset b = [dx, dy] \<Longrightarrow>
   makeButton b =
     Inr ((Surface (w, h) False
            (if highlight_button b \<and> hovered b then button_color_sel b else button_color b) [],
           \<lparr>r_x = 0, r_y = 0, r_w = w, r_h = h\<rparr>) #
          (if dx \<noteq> 0 \<and> dy \<noteq> 0 then
             [(Surface (w, h) False (shadow_color b) [],
               \<lparr>r_x = dx, r_y = dy, r_w = w, r_h = h\<rparr>)]
           else []))"
  by (auto simp: makeButton_def Let_def ebind_def item_def Surface_new_def fill_def convert_def
      get_rect_def getColors_def set_topleft_def topleft_def)

text \<open>
  C7. The first pair \<open>makeButton\<close> returns is the face: a surface of exactly the size of
  the Button, filled with the mouse over colour when \<open>highlight_button\<close> is true and the
  Button is hovered, and with the base colour in every other case, also when the Button is
  hovered and \<open>highlight_button\<close> is false.
\<close>

theorem makeButton_face:
  "size' b = [w, h] \<Longrightarrow> offset b = [dx, dy] \<Longrightarrow>
   \<exists>rest. makeButton b =
     Inr ((Surface (w, h) False
            (if highlight_button b \<and> hovered b then button_color_sel b else button_color b) [],
           \<lparr>r_x = 0, r_y = 0, r_w = w, r_h = h\<rparr>) # rest)"
  by (simp add: makeButton_pairs)

theorem makeButton_face_witness:
  "(\<exists>rest. makeButton (default_button\<lparr>highlight_button := True, hovered := True\<rparr>) =
      Inr ((Surface (60, 20) False [105, 195, 255] [],
            \<lparr>r_x = 0, r_y = 0, r_w = 60, r_h = 20\<rparr>) # rest)) \<and>
   (\<exists>rest. makeButton (default_button\<lparr>hovered := True\<rparr>) =
      Inr ((Surface (60, 20) False [70, 130, 180] [],
            \<lparr>r_x = 0, r_y = 0, r_w = 60, r_h = 20\<rparr>) # rest)) \<and>
   (\<exists>rest. makeButton (default_button\<lparr>highlight_button := True\<rparr>) =
      Inr ((Surface (60, 20) False [70, 130, 180] [],
            \<lparr>r_x = 0, r_y = 0, r_w = 60, r_h = 20\<rparr>) # rest))"
  using
    makeButton_face [of "default_button\<lparr>highlight_button := True, hovered := True\<rparr>" 60 20 3 2]
    makeButton_face [of "default_button\<lparr>hovered := True\<rparr>" 60 20 3 2]
    makeButton_face [of "default_button\<lparr>highlight_button := True\<rparr>" 60 20 3 2]
  by (simp add: default_button_sel)

text \<open>
  C8. \<open>makeButton\<close> returns a second pair, the shadow, exactly when neither component of
  the offset is 0. The shadow's surface has the size of the Button and is filled with the
  shadow colour, and the top left corner of its rectangle is the top left corner of the
  face's rectangle moved by the offset.
\<close>

theorem makeButton_shadow:
  "size' b = [w, h] \<Longrightarrow> offset b = [dx, dy] \<Longrightarrow>
   \<exists>face. makeButton b =
     Inr (face #
       (if dx \<noteq> 0 \<and> dy \<noteq> 0 then
          [(Surface (w, h) False (shadow_color b) [],
            \<lparr>r_x = fst (topleft (snd face)) + dx, r_y = snd (topleft (snd face)) + dy,
             r_w = w, r_h = h\<rparr>)]
        else []))"
  by (simp add: makeButton_pairs topleft_def)

theorem makeButton_shadow_witness:
  "makeButton default_button =
     Inr [(Surface (60, 20) False [70, 130, 180] [], \<lparr>r_x = 0, r_y = 0, r_w = 60, r_h = 20\<rparr>),
          (Surface (60, 20) False [99, 184, 255] [], \<lparr>r_x = 3, r_y = 2, r_w = 60, r_h = 20\<rparr>)] \<and>
   makeButton (default_button\<lparr>offset := [0, 2]\<rparr>) =
     Inr [(Surface (60, 20) False [70, 130, 180] [], \<lparr>r_x = 0, r_y = 0, r_w = 60, r_h = 20\<rparr>)]"
  using makeButton_shadow [of default_button 60 20 3 2]
    makeButton_shadow [of "default_button\<lparr>offset := [0, 2]\<rparr>" 60 20 0 2]
    makeButton_pairs [of default_button 60 20 3 2]
    makeButton_pairs [of "default_button\<lparr>offset := [0, 2]\<rparr>" 60 20 0 2]
  by (simp add: default_button_sel)

subsection \<open>The bounding rectangle\<close>

text \<open>
  C9. \<open>getRect\<close> takes the rectangle of the backing surface, at the origin. For the anchor
  \<open>center\<close>, \<open>topleft\<close>, \<open>topright\<close>, \<open>bottomleft\<close> or \<open>bottomright\<close> it moves the rectangle
  so that this anchor point is the position of the Button, and keeps its size. For any
  other anchor it leaves the rectangle at the origin and raises nothing.
\<close>

theorem getRect_anchor:
  assumes "surf b = Some s"
  shows "(pos b = [px, py] \<longrightarrow>
      (v_attr b = ''center'' \<longrightarrow>
         (\<exists>r. getRect b = Inr (b\<lparr>rect := Some r\<rparr>) \<and> center r = (px, py) \<and>
            (r_w r, r_h r) = s_size s)) \<and>
      (v_attr b = ''topleft'' \<longrightarrow>
         (\<exists>r. getRect b = Inr (b\<lparr>rect := Some r\<rparr>) \<and> topleft r = (px, py) \<and>
            (r_w r, r_h r) = s_size s)) \<and>
      (v_attr b = ''topright'' \<longrightarrow>
         (\<exists>r. getRect b = Inr (b\<lparr>rect := Some r\<rparr>) \<and> topright r = (px, py) \<and>
            (r_w r, r_h r) = s_size s)) \<and>
      (v_attr b = ''bottomleft'' \<longrightarrow>
         (\<exists>r. getRect b = Inr (b\<lparr>rect := Some r\<rparr>) \<and> bottomleft r = (px, py) \<and>
            (r_w r, r_h r) = s_size s)) \<and>
      (v_attr b = ''bottomright'' \<longrightarrow>
         (\<exists>r. getRect b = Inr (b\<lparr>rect := Some r\<rparr>) \<and> bottomright r = (px, py) \<and>
            (r_w r, r_h r) = s_size s))) \<and>
    (v_attr b \<notin> {''center'', ''topleft'', ''topright'', ''bottomleft'', ''bottomright''} \<longrightarrow>
       getRect b =
         Inr (b\<lparr>rect := Some \<lparr>r_x = 0, r_y = 0, r_w = fst (s_size s),
                              r_h = snd (s_size s)\<rparr>\<rparr>))"
  using assms
  by (auto simp: getRect_def Let_def ebind_def assign_def get_rect_def
      set_center_def set_topleft_def set_topright_def set_bottomleft_def set_bottomright_def
      center_def topleft_def topright_def bottomleft_def bottomright_def)

theorem getRect_anchor_witness:
  "(\<exists>r. getRect (default_button\<lparr>pos := [30, 30], v_attr := ''center''\<rparr>) =
        Inr (default_button\<lparr>pos := [30, 30], v_attr := ''center'', rect := Some r\<rparr>) \<and>
      center r = (30, 30) \<and> (r_w r, r_h r) = (63, 22)) \<and>
   (\<exists>r. getRect (default_button\<lparr>pos := [30, 30], v_attr := ''bottomright''\<rparr>) =
        Inr (default_button\<lparr>pos := [30, 30], v_attr := ''bottomright'', rect := Some r\<rparr>) \<and>
      bottomright r = (30, 30) \<and> (r_w r, r_h r) = (63, 22)) \<and>
   getRect (default_button\<lparr>pos := [30, 30], v_attr := ''middle''\<rparr>) =
     Inr (default_button\<lparr>pos := [30, 30], v_attr := ''middle'',
       rect := Some \<lparr>r_x = 0, r_y = 0, r_w = 63, r_h = 22\<rparr>\<rparr>)"
  using
    getRect_anchor [of "default_button\<lparr>pos := [30, 30], v_attr := ''center''\<rparr>"
      "Surface (63, 22) True [0, 0, 0, 0] []" 30 30]
    getRect_anchor [of "default_button\<lparr>pos := [30, 30], v_attr := ''bottomright''\<rparr>"
      "Surface (63, 22) True [0, 0, 0, 0] []" 30 30]
    getRect_anchor [of "default_button\<lparr>pos := [30, 30], v_attr := ''middle''\<rparr>"
      "Surface (63, 22) True [0, 0, 0, 0] []" 30 30]
  by (simp add: default_button_sel)

subsection \<open>Further properties of the constructor and of draw\<close>

lemma length2: "length xs = 2 \<Longrightarrow> \<exists>a b. xs = [a, b]"
  by (cases xs; cases "tl xs") auto

text \<open>
  X2. The constructor returns a Button whenever the size, the offset and the position are
  sequences of two numbers, and the counter has moved on by one.
\<close>

theorem Button_init_succeeds:
  assumes "length (case sa of None \<Rightarrow> [60, 20] | Some sz \<Rightarrow> sz) = 2"
    and "length (kwargs_get (kw_offset kw) [3, 2]) = 2"
    and "length (kwargs_get (kw_pos kw) [0, 0]) = 2"
  shows "\<exists>b. Button_init fmul c ta sa kw = (Inr b, c + 1)"
proof -
  from assms(1) obtain w h
    where sz: "(case sa of None \<Rightarrow> [60, 20] | Some sz \<Rightarrow> sz) = [w, h]"
    using length2 by blast
  from assms(2) obtain dx dy where off: "kwargs_get (kw_offset kw) [3, 2] = [dx, dy]"
    using length2 by blast
  from assms(3) obtain px py where p: "kwargs_get (kw_pos kw) [0, 0] = [px, py]"
    using length2 by blast
  show ?thesis
    unfolding Button_init_def Let_def sz off p
    by (simp add: item_def ebind_def nextid_def getSurf_pairs getRect_def Let_def assign_def)
qed

theorem Button_init_succeeds_witness:
  "\<exists>b. Button_init exact_mul 0 (Some ''New'') (Some [85, 35])
         (no_kwargs\<lparr>kw_offset := Some [0, 2]\<rparr>) = (Inr b, 0 + 1)"
  using Button_init_succeeds [of "Some [85, 35]" "no_kwargs\<lparr>kw_offset := Some [0, 2]\<rparr>"
      exact_mul 0 "Some ''New''"]
  by (simp add: no_kwargs_def kwargs_get_def)

lemma py_int_third: "py_int (of_int n / 3) = (if 0 \<le> n then n div 3 else - ((- n) div 3))"
proof (cases "0 \<le> n")
  case True
  then show ?thesis
    using floor_divide_of_int_eq [of n 3, where ?'a = real] by (simp add: py_int_def)
next
  case False
  then have neg: "\<not> 0 \<le> real_of_int n / 3"
    by simp
  have "\<lceil>real_of_int n / 3\<rceil> = - \<lfloor>real_of_int (- n) / real_of_int 3\<rfloor>"
    by (simp add: ceiling_def)
  also have "\<dots> = - ((- n) div 3)"
    by (simp only: floor_divide_of_int_eq)
  finally show ?thesis
    using False neg by (simp add: py_int_def)
qed

lemma Button_init_font:
  assumes "Button_init fmul c ta (Some [w, h]) kw = (Inr b, c')"
  shows "font b = SysFont (kw_font_name kw)
     (kwargs_get (kw_font_size kw)
        (py_int (of_int (w + h) / 3) -
         int (length (case ta of None \<Rightarrow> ''button'' | Some t \<Rightarrow> t))))"
  using assms
  by (auto simp: Button_init_def Let_def ebind_def item_def split: sum.splits
      dest!: getSurf_frame getRect_frame)

text \<open>
  X3. Without a font size of its own, a Button of size \<open>(w, h)\<close> gets the font size
  \<open>(w + h) / 3\<close>, truncated towards zero, less the length of the title argument: the
  length of \<open>button\<close> when no title is passed, not that of the title with the id.
\<close>

theorem font_size_default:
  "Button_init fmul c ta (Some [w, h]) kw = (Inr b, c') \<Longrightarrow> kw_font_size kw = None \<Longrightarrow>
   f_size (font b) =
     (if 0 \<le> w + h then (w + h) div 3 else - ((- (w + h)) div 3)) -
     int (length (case ta of None \<Rightarrow> ''button'' | Some t \<Rightarrow> t))"
  using Button_init_font [of fmul c ta w h kw b c'] py_int_third [of "w + h"]
  by (simp add: kwargs_get_def SysFont_def)

theorem font_size_default_witness:
  "map_sum id (\<lambda>b. f_size (font b))
     (fst (Button_init exact_mul 0 (Some ''New'') (Some [85, 35]) no_kwargs)) = Inr 37"
proof -
  have none: "kw_font_size no_kwargs = None"
    by (simp add: no_kwargs_def)
  from font_size_default [OF demo_size_constructed none] show ?thesis
    by (simp add: demo_size_constructed)
qed

text \<open>What \<open>draw\<close> returns for a Button that was constructed.\<close>

lemma draw_pairs:
  assumes "size' b = [w, h]" "offset b = [dx, dy]" "surf b = Some sf" "rect b = Some r"
  shows "draw render b target =
     (let face_rect = \<lparr>r_x = 0, r_y = 0, r_w = w, r_h = h\<rparr>;
          face = Surface (w, h) False
             (if highlight_button b \<and> hovered b then button_color_sel b else button_color b) [];
          titleS = render (font b) (title b) True (getColors b True);
          titleR0 = get_rect titleS;
          titleR =
            (if align_text b = ''center'' then set_center titleR0 (center face_rect)
             else if align_text b = ''left'' then
               set_centery (set_left titleR0 (left face_rect + 4)) (centery face_rect)
             else if align_text b = ''right'' then
               set_centery (set_right titleR0 (right face_rect - 4)) (centery face_rect)
             else titleR0);
          sf1 = (if dx \<noteq> 0 \<and> dy \<noteq> 0
                 then blit sf (Surface (w, h) False (shadow_color b) [])
                        \<lparr>r_x = dx, r_y = dy, r_w = w, r_h = h\<rparr>
                 else sf);
          sf2 = blit sf1 (blit face titleS titleR) face_rect
      in Inr (b\<lparr>surf := Some sf2\<rparr>, blit target sf2 r))"
proof (cases "dx \<noteq> 0 \<and> dy \<noteq> 0")
  case True
  with assms have mb: "makeButton b =
      Inr [(Surface (w, h) False
             (if highlight_button b \<and> hovered b then button_color_sel b else button_color b) [],
            \<lparr>r_x = 0, r_y = 0, r_w = w, r_h = h\<rparr>),
           (Surface (w, h) False (shadow_color b) [],
            \<lparr>r_x = dx, r_y = dy, r_w = w, r_h = h\<rparr>)]"
    by (simp add: makeButton_pairs)
  from assms(3,4) show ?thesis
    unfolding if_P [OF True]
    by (simp add: draw_def Let_def mb ebind_def item_def rendTxt_def
        split del: if_split cong: if_cong)
next
  case False
  with assms have mb: "makeButton b =
      Inr [(Surface (w, h) False
             (if highlight_button b \<and> hovered b then button_color_sel b else button_color b) [],
            \<lparr>r_x = 0, r_y = 0, r_w = w, r_h = h\<rparr>)]"
    by (simp add: makeButton_pairs)
  from assms(3,4) show ?thesis
    unfolding if_not_P [OF False]
    by (simp add: draw_def Let_def mb ebind_def item_def rendTxt_def
        split del: if_split cong: if_cong)
qed

text \<open>
  X4. \<open>draw\<close> on a constructed Button raises nothing. The last thing drawn on the target is
  the Button's surface, at the Button's rectangle; the last thing drawn on the Button's
  surface is the face; the last thing drawn on the face is the label. The label's
  rectangle is centred on the face's for the alignment \<open>center\<close>; for \<open>left\<close> its left
  edge is 4 right of the face's and for \<open>right\<close> its right edge is 4 left of the face's,
  centred vertically in both; for any other alignment the label stays at the origin.
\<close>

theorem draw_label_alignment:
  assumes "size' b = [w, h]" "offset b = [dx, dy]" "surf b = Some sf" "rect b = Some r"
  shows "\<exists>b' target' face face_rect label label_rect.
     draw render b target = Inr (b', target') \<and>
     map_option (\<lambda>s. last (s_blits s)) (surf b') = Some (face, face_rect) \<and>
     last (s_blits face) = (label, label_rect) \<and>
     last (s_blits target') = (the (surf b'), r) \<and>
     (align_text b = ''center'' \<longrightarrow> center label_rect = center face_rect) \<and>
     (align_text b = ''left'' \<longrightarrow>
        left label_rect = left face_rect + 4 \<and> centery label_rect = centery face_rect) \<and>
     (align_text b = ''right'' \<longrightarrow>
        right label_rect = right face_rect - 4 \<and> centery label_rect = centery face_rect) \<and>
     (align_text b \<notin> {''center'', ''left'', ''right''} \<longrightarrow> topleft label_rect = (0, 0))"
  unfolding draw_pairs [OF assms] Let_def
  by (simp add: blit_def center_def left_def right_def centery_def topleft_def set_center_def
      set_left_def set_right_def set_centery_def get_rect_def)

theorem draw_label_alignment_witness:
  "\<exists>b' target' face face_rect label label_rect.
     draw render_30x10 (default_button\<lparr>align_text := ''left''\<rparr>)
       (Surface (680, 420) False [0, 0, 0] []) = Inr (b', target') \<and>
     map_option (\<lambda>s. last (s_blits s)) (surf b') = Some (face, face_rect) \<and>
     last (s_blits face) = (label, label_rect) \<and>
     last (s_blits target') = (the (surf b'), \<lparr>r_x = 0, r_y = 0, r_w = 63, r_h = 22\<rparr>) \<and>
     left label_rect = left face_rect + 4 \<and> centery label_rect = centery face_rect"
  using draw_label_alignment [of "default_button\<lparr>align_text := ''left''\<rparr>"
      60 20 3 2 "Surface (63, 22) True [0, 0, 0, 0] []" "\<lparr>r_x = 0, r_y = 0, r_w = 63, r_h = 22\<rparr>"
      render_30x10 "Surface (680, 420) False [0, 0, 0] []"]
  by (simp add: default_button_sel default_button_def)

end
